theory Spec2Isabelle
  imports Complex_Main
begin

section \<open>Tables\<close>

text \<open>
  The analyser and the chart dispatcher work on a pandas \<^verbatim>\<open>DataFrame\<close>. A frame is modelled
  as its row count (\<^verbatim>\<open>len(data)\<close>, \<^verbatim>\<open>data.shape[0]\<close>) and its ordered columns; a column
  has a name, a dtype and one cell per row. A cell is a number, a text, or the missing
  marker (\<^verbatim>\<open>NaN\<close>/\<^verbatim>\<open>None\<close>); a Boolean column holds the numbers 0 and 1. Numbers are
  real numbers: arithmetic is exact, the rounding of IEEE doubles is not part of the
  model. Columns of dates are outside the model.
\<close>

datatype dtype = Numeric | Boolean | Object | Category

datatype cell = Num real | Str string | NA

record column =
  cname :: string
  ctype :: dtype
  cells :: "cell list"

record table =
  nrows :: nat
  columns :: "column list"


text \<open>\<^verbatim>\<open>data.select_dtypes(include=[np.number])\<close>: the numeric columns, on the same rows.\<close>

definition select_dtypes_number :: "table \<Rightarrow> table" where
  "select_dtypes_number data = data\<lparr>columns := filter (\<lambda>c. ctype c = Numeric) (columns data)\<rparr>"

text \<open>\<^verbatim>\<open>DataFrame.empty\<close>: true when either axis has length zero.\<close>

definition df_empty :: "table \<Rightarrow> bool" where
  "df_empty data \<longleftrightarrow> nrows data = 0 \<or> columns data = []"

text \<open>\<^verbatim>\<open>data.columns\<close> as the list of names, and the test \<^verbatim>\<open>name in data.columns\<close>.\<close>

definition column_names :: "table \<Rightarrow> string list" where
  "column_names data = map cname (columns data)"

section \<open>Floating-point results and report text\<close>

text \<open>
  A computed float is a finite number, an infinity or \<^verbatim>\<open>NaN\<close>. NumPy and pandas do not raise
  on a division by zero: \<^verbatim>\<open>0/0\<close> is \<^verbatim>\<open>NaN\<close>, \<^verbatim>\<open>a/0\<close> with \<^verbatim>\<open>a > 0\<close> is \<^verbatim>\<open>inf\<close>.
\<close>

datatype npfloat = Fin real | PosInf | NegInf | NaN



text \<open>\<^verbatim>\<open>round(d)\<close> of NumPy: to the nearest multiple of \<open>10\<^sup>-\<^sup>d\<close>, a tie to the even one.\<close>

definition round_half_even :: "real \<Rightarrow> int" where
  "round_half_even x =
     (let f = \<lfloor>x\<rfloor>; r = x - of_int f
      in if r < 1/2 then f else if r > 1/2 then f + 1 else if even f then f else f + 1)"

definition np_round :: "nat \<Rightarrow> real \<Rightarrow> real" where
  "np_round d x = of_int (round_half_even (x * 10 ^ d)) / 10 ^ d"

fun npf_round :: "nat \<Rightarrow> npfloat \<Rightarrow> npfloat" where
  "npf_round d (Fin x) = Fin (np_round d x)"
| "npf_round d v = v"

text \<open>\<^verbatim>\<open>abs(v) > t\<close> on a float: false on \<^verbatim>\<open>NaN\<close>.\<close>

fun abs_gt :: "npfloat \<Rightarrow> real \<Rightarrow> bool" where
  "abs_gt (Fin r) t = (\<bar>r\<bar> > t)"
| "abs_gt PosInf t = True"
| "abs_gt NegInf t = True"
| "abs_gt NaN t = False"

text \<open>
  A report is a Python string built by concatenation. Literal text is kept byte for byte
  (UTF-8); a formatted value is kept as the value with its format, so that what the code
  prints is visible without modelling the digit output of Python and pandas:
  \<open>IntText n\<close> is \<^verbatim>\<open>f"{n}"\<close>, \<open>FixedText d v\<close> is \<^verbatim>\<open>f"{v:.df}"\<close>, \<open>MatrixText\<close> and
  \<open>CountsText\<close> are \<^verbatim>\<open>to_string()\<close> of a frame.
\<close>

datatype token =
    Lit string
  | IntText nat
  | FixedText nat npfloat
  | MatrixText "string list" "npfloat list list"
  | CountsText "string list" "(string \<times> nat \<times> npfloat) list"

type_synonym report = "token list"

definition nl :: string where
  "nl = [CHR 0x0A]"

subsection \<open>The literal texts of the analyser\<close>

definition msg_corr_header :: string where
  "msg_corr_header = [CHR 0x3D, CHR 0x3D, CHR 0x3D, CHR 0x20, CHR 0xE7, CHR 0x9B, CHR 0xB8, CHR 0xE5, CHR 0x85, CHR 0xB3, CHR 0xE6, CHR 0x80, CHR 0xA7, CHR 0xE5, CHR 0x88, CHR 0x86, CHR 0xE6, CHR 0x9E, CHR 0x90, CHR 0x20, CHR 0x3D, CHR 0x3D, CHR 0x3D, CHR 0x0A, CHR 0x0A]"

definition msg_corr_no_numeric :: string where
  "msg_corr_no_numeric = [CHR 0xE6, CHR 0xB2, CHR 0xA1, CHR 0xE6, CHR 0x9C, CHR 0x89, CHR 0xE6, CHR 0x95, CHR 0xB0, CHR 0xE5, CHR 0x80, CHR 0xBC, CHR 0xE5, CHR 0x9E, CHR 0x8B, CHR 0xE6, CHR 0x95, CHR 0xB0, CHR 0xE6, CHR 0x8D, CHR 0xAE, CHR 0xE5, CHR 0x8F, CHR 0xAF, CHR 0xE7, CHR 0x94, CHR 0xA8, CHR 0xE4, CHR 0xBA, CHR 0x8E, CHR 0xE7, CHR 0x9B, CHR 0xB8, CHR 0xE5, CHR 0x85, CHR 0xB3, CHR 0xE6, CHR 0x80, CHR 0xA7, CHR 0xE5, CHR 0x88, CHR 0x86, CHR 0xE6, CHR 0x9E, CHR 0x90]"

definition msg_corr_need_two :: string where
  "msg_corr_need_two = [CHR 0xE9, CHR 0x9C, CHR 0x80, CHR 0xE8, CHR 0xA6, CHR 0x81, CHR 0xE8, CHR 0x87, CHR 0xB3, CHR 0xE5, CHR 0xB0, CHR 0x91, CHR 0xE4, CHR 0xB8, CHR 0xA4, CHR 0xE4, CHR 0xB8, CHR 0xAA, CHR 0xE6, CHR 0x95, CHR 0xB0, CHR 0xE5, CHR 0x80, CHR 0xBC, CHR 0xE5, CHR 0x9E, CHR 0x8B, CHR 0xE5, CHR 0x8F, CHR 0x98, CHR 0xE9, CHR 0x87, CHR 0x8F, CHR 0xE8, CHR 0xBF, CHR 0x9B, CHR 0xE8, CHR 0xA1, CHR 0x8C, CHR 0xE7, CHR 0x9B, CHR 0xB8, CHR 0xE5, CHR 0x85, CHR 0xB3, CHR 0xE6, CHR 0x80, CHR 0xA7, CHR 0xE5, CHR 0x88, CHR 0x86, CHR 0xE6, CHR 0x9E, CHR 0x90]"

definition msg_corr_matrix :: string where
  "msg_corr_matrix = [CHR 0xE7, CHR 0x9B, CHR 0xB8, CHR 0xE5, CHR 0x85, CHR 0xB3, CHR 0xE7, CHR 0xB3, CHR 0xBB, CHR 0xE6, CHR 0x95, CHR 0xB0, CHR 0xE7, CHR 0x9F, CHR 0xA9, CHR 0xE9, CHR 0x98, CHR 0xB5, CHR 0x3A, CHR 0x0A]"

definition msg_corr_strong :: string where
  "msg_corr_strong = [CHR 0xE5, CHR 0xBC, CHR 0xBA, CHR 0xE7, CHR 0x9B, CHR 0xB8, CHR 0xE5, CHR 0x85, CHR 0xB3, CHR 0xE6, CHR 0x80, CHR 0xA7, CHR 0x20, CHR 0x28, CHR 0x7C, CHR 0x72, CHR 0x7C, CHR 0x20, CHR 0x3E, CHR 0x20, CHR 0x30, CHR 0x2E, CHR 0x37, CHR 0x29, CHR 0x3A, CHR 0x0A]"

definition msg_corr_none :: string where
  "msg_corr_none = [CHR 0x20, CHR 0x20, CHR 0xE6, CHR 0x9C, CHR 0xAA, CHR 0xE5, CHR 0x8F, CHR 0x91, CHR 0xE7, CHR 0x8E, CHR 0xB0, CHR 0xE5, CHR 0xBC, CHR 0xBA, CHR 0xE7, CHR 0x9B, CHR 0xB8, CHR 0xE5, CHR 0x85, CHR 0xB3, CHR 0xE6, CHR 0x80, CHR 0xA7, CHR 0x0A]"

section \<open>DataAnalyzer.analyze_correlations\<close>

text \<open>
  \<^verbatim>\<open>DataFrame.corr()\<close>: Pearson's coefficient of every pair of columns, over the rows where
  both cells are present. Without such a row, or when either column is constant on them
  (the divisor is zero), the entry is \<^verbatim>\<open>NaN\<close>.
\<close>

fun both_present :: "cell \<times> cell \<Rightarrow> (real \<times> real) list" where
  "both_present (Num u, Num v) = [(u, v)]"
| "both_present _ = []"

definition pair_obs :: "cell list \<Rightarrow> cell list \<Rightarrow> (real \<times> real) list" where
  "pair_obs xs ys = concat (map both_present (zip xs ys))"

definition mean :: "real list \<Rightarrow> real" where
  "mean xs = sum_list xs / real (length xs)"

definition nancorr :: "(real \<times> real) list \<Rightarrow> npfloat" where
  "nancorr ps =
     (if length ps < 1 then NaN
      else
        let meanx = mean (map fst ps);
            meany = mean (map snd ps);
            covxy = sum_list (map (\<lambda>(vx, vy). (vx - meanx) * (vy - meany)) ps);
            ssqdm_x = sum_list (map (\<lambda>(vx, vy). (vx - meanx) * (vx - meanx)) ps);
            ssqdm_y = sum_list (map (\<lambda>(vx, vy). (vy - meany) * (vy - meany)) ps);
            divisor = sqrt (ssqdm_x * ssqdm_y)
        in if divisor \<noteq> 0 then Fin (covxy / divisor) else NaN)"

definition df_corr :: "table \<Rightarrow> npfloat list list" where
  "df_corr data =
     map (\<lambda>ci. map (\<lambda>cj. nancorr (pair_obs (cells ci) (cells cj))) (columns data)) (columns data)"

text \<open>
  The numbers of a column, without its missing cells, and the test that they are all
  the same number (a column without two different values has no spread).
\<close>

fun present :: "cell \<Rightarrow> real list" where
  "present (Num v) = [v]"
| "present _ = []"

definition present_values :: "cell list \<Rightarrow> real list" where
  "present_values xs = concat (map present xs)"


text \<open>
  The double loop over \<^verbatim>\<open>i\<close> and \<^verbatim>\<open>j > i\<close> that collects the strong pairs. The matrix is square
  on the names, so \<^verbatim>\<open>iloc[i, j]\<close> is always in range.
\<close>

definition strong_at :: "string list \<Rightarrow> npfloat list list \<Rightarrow> nat \<Rightarrow> nat \<Rightarrow> (string \<times> string \<times> npfloat) list" where
  "strong_at names m i j =
     (let corr = m ! i ! j
      in if abs_gt corr (7/10) then [(names ! i, names ! j, corr)] else [])"

definition strong_correlations :: "string list \<Rightarrow> npfloat list list \<Rightarrow> (string \<times> string \<times> npfloat) list" where
  "strong_correlations names m =
     concat (map (\<lambda>i. concat (map (\<lambda>j. strong_at names m i j) [i + 1 ..< length names]))
                 [0 ..< length names])"

definition strong_line :: "string \<times> string \<times> npfloat \<Rightarrow> report" where
  "strong_line p =
     (case p of (col1, col2, corr) \<Rightarrow>
        [Lit ''  '', Lit col1, Lit '' - '', Lit col2, Lit '': '', FixedText 3 corr, Lit nl])"

definition analyze_correlations :: "table \<Rightarrow> report" where
  "analyze_correlations data =
     (let corr_text = [Lit msg_corr_header];
          numeric_data = select_dtypes_number data
      in if df_empty numeric_data then [Lit msg_corr_no_numeric]
         else if length (columns numeric_data) < 2 then [Lit msg_corr_need_two]
         else
           let correlation_matrix = df_corr numeric_data;
               names = column_names numeric_data;
               corr_text = corr_text @ [Lit msg_corr_matrix];
               corr_text = corr_text @ [MatrixText names (map (map (npf_round 3)) correlation_matrix)];
               corr_text = corr_text @ [Lit (nl @ nl)];
               corr_text = corr_text @ [Lit msg_corr_strong];
               strong = strong_correlations names correlation_matrix
           in if strong \<noteq> [] then corr_text @ concat (map strong_line strong)
              else corr_text @ [Lit msg_corr_none])"


section \<open>DataAnalyzer.analyze_missing_values\<close>

subsection \<open>The literal texts\<close>





















section \<open>DataAnalyzer.detect_outliers\<close>









section \<open>The reports as the specification words them\<close>



section \<open>VisualizationEngine\<close>

subsection \<open>Exceptions and their messages\<close>

text \<open>
  A message is kept in pieces: literal text, the \<^verbatim>\<open>repr\<close> of a key as \<^verbatim>\<open>str(KeyError(key))\<close>
  prints it, and the name that seaborn quotes when it cannot find a variable in the data
  (the wording around the name differs between seaborn versions). \<open>NotModelled\<close> stands
  for a call that leaves the part of pandas modelled here; nothing is stated about it.
\<close>

datatype piece = Text string | Repr "string option" | Named string

datatype pyerr =
    KeyError "string option"
  | ValueError "piece list"
  | TypeError "piece list"
  | Exception "piece list"
  | NotModelled

fun py_str :: "pyerr \<Rightarrow> piece list" where
  "py_str (KeyError k) = [Repr k]"
| "py_str (ValueError m) = m"
| "py_str (TypeError m) = m"
| "py_str (Exception m) = m"
| "py_str NotModelled = []"

definition then_do :: "pyerr + 'a \<Rightarrow> ('a \<Rightarrow> pyerr + 'b) \<Rightarrow> pyerr + 'b" where
  "then_do r f = (case r of Inl e \<Rightarrow> Inl e | Inr v \<Rightarrow> f v)"

definition msg_unsupported :: string where
  "msg_unsupported = [CHR 0xE4, CHR 0xB8, CHR 0x8D, CHR 0xE6, CHR 0x94, CHR 0xAF, CHR 0xE6, CHR 0x8C, CHR 0x81, CHR 0xE7, CHR 0x9A, CHR 0x84, CHR 0xE5, CHR 0x9B, CHR 0xBE, CHR 0xE8, CHR 0xA1, CHR 0xA8, CHR 0xE7, CHR 0xB1, CHR 0xBB, CHR 0xE5, CHR 0x9E, CHR 0x8B, CHR 0x3A, CHR 0x20]"

definition msg_create_failed :: string where
  "msg_create_failed = [CHR 0xE5, CHR 0x88, CHR 0x9B, CHR 0xE5, CHR 0xBB, CHR 0xBA, CHR 0xE5, CHR 0x9B, CHR 0xBE, CHR 0xE8, CHR 0xA1, CHR 0xA8, CHR 0xE5, CHR 0xA4, CHR 0xB1, CHR 0xE8, CHR 0xB4, CHR 0xA5, CHR 0x3A, CHR 0x20]"

definition msg_heatmap_no_numeric :: string where
  "msg_heatmap_no_numeric = [CHR 0xE6, CHR 0xB2, CHR 0xA1, CHR 0xE6, CHR 0x9C, CHR 0x89, CHR 0xE6, CHR 0x95, CHR 0xB0, CHR 0xE5, CHR 0x80, CHR 0xBC, CHR 0xE5, CHR 0x9E, CHR 0x8B, CHR 0xE6, CHR 0x95, CHR 0xB0, CHR 0xE6, CHR 0x8D, CHR 0xAE, CHR 0xE5, CHR 0x8F, CHR 0xAF, CHR 0xE7, CHR 0x94, CHR 0xA8, CHR 0xE4, CHR 0xBA, CHR 0x8E, CHR 0xE7, CHR 0x83, CHR 0xAD, CHR 0xE5, CHR 0x8A, CHR 0x9B, CHR 0xE5, CHR 0x9B, CHR 0xBE]"

definition msg_pair_no_numeric :: string where
  "msg_pair_no_numeric = [CHR 0xE6, CHR 0xB2, CHR 0xA1, CHR 0xE6, CHR 0x9C, CHR 0x89, CHR 0xE6, CHR 0x95, CHR 0xB0, CHR 0xE5, CHR 0x80, CHR 0xBC, CHR 0xE5, CHR 0x9E, CHR 0x8B, CHR 0xE6, CHR 0x95, CHR 0xB0, CHR 0xE6, CHR 0x8D, CHR 0xAE, CHR 0xE5, CHR 0x8F, CHR 0xAF, CHR 0xE7, CHR 0x94, CHR 0xA8, CHR 0xE4, CHR 0xBA, CHR 0x8E, CHR 0xE9, CHR 0x85, CHR 0x8D, CHR 0xE5, CHR 0xAF, CHR 0xB9, CHR 0xE5, CHR 0x9B, CHR 0xBE]"

definition msg_pair_need_two :: string where
  "msg_pair_need_two = [CHR 0xE9, CHR 0x9C, CHR 0x80, CHR 0xE8, CHR 0xA6, CHR 0x81, CHR 0xE8, CHR 0x87, CHR 0xB3, CHR 0xE5, CHR 0xB0, CHR 0x91, CHR 0xE4, CHR 0xB8, CHR 0xA4, CHR 0xE4, CHR 0xB8, CHR 0xAA, CHR 0xE6, CHR 0x95, CHR 0xB0, CHR 0xE5, CHR 0x80, CHR 0xBC, CHR 0xE5, CHR 0x9E, CHR 0x8B, CHR 0xE5, CHR 0x8F, CHR 0x98, CHR 0xE9, CHR 0x87, CHR 0x8F, CHR 0xE7, CHR 0x94, CHR 0xA8, CHR 0xE4, CHR 0xBA, CHR 0x8E, CHR 0xE9, CHR 0x85, CHR 0x8D, CHR 0xE5, CHR 0xAF, CHR 0xB9, CHR 0xE5, CHR 0x9B, CHR 0xBE]"

definition name_line :: string where
  "name_line = [CHR 0xE6, CHR 0x8A, CHR 0x98, CHR 0xE7, CHR 0xBA, CHR 0xBF, CHR 0xE5, CHR 0x9B, CHR 0xBE]"

definition name_bar :: string where
  "name_bar = [CHR 0xE6, CHR 0x9F, CHR 0xB1, CHR 0xE7, CHR 0x8A, CHR 0xB6, CHR 0xE5, CHR 0x9B, CHR 0xBE]"

definition name_scatter :: string where
  "name_scatter = [CHR 0xE6, CHR 0x95, CHR 0xA3, CHR 0xE7, CHR 0x82, CHR 0xB9, CHR 0xE5, CHR 0x9B, CHR 0xBE]"

definition name_pie :: string where
  "name_pie = [CHR 0xE9, CHR 0xA5, CHR 0xBC, CHR 0xE5, CHR 0x9B, CHR 0xBE]"

definition name_area :: string where
  "name_area = [CHR 0xE9, CHR 0x9D, CHR 0xA2, CHR 0xE7, CHR 0xA7, CHR 0xAF, CHR 0xE5, CHR 0x9B, CHR 0xBE]"

definition name_box :: string where
  "name_box = [CHR 0xE7, CHR 0xAE, CHR 0xB1, CHR 0xE7, CHR 0xBA, CHR 0xBF, CHR 0xE5, CHR 0x9B, CHR 0xBE]"

definition name_heatmap :: string where
  "name_heatmap = [CHR 0xE7, CHR 0x83, CHR 0xAD, CHR 0xE5, CHR 0x8A, CHR 0x9B, CHR 0xE5, CHR 0x9B, CHR 0xBE]"

definition name_distplot :: string where
  "name_distplot = [CHR 0xE5, CHR 0x88, CHR 0x86, CHR 0xE5, CHR 0xB8, CHR 0x83, CHR 0xE5, CHR 0x9B, CHR 0xBE]"

definition name_violin :: string where
  "name_violin = [CHR 0xE5, CHR 0xB0, CHR 0x8F, CHR 0xE6, CHR 0x8F, CHR 0x90, CHR 0xE7, CHR 0x90, CHR 0xB4, CHR 0xE5, CHR 0x9B, CHR 0xBE]"

definition name_default :: string where
  "name_default = [CHR 0xE5, CHR 0x9B, CHR 0xBE, CHR 0xE8, CHR 0xA1, CHR 0xA8]"

subsection \<open>The drawing surface\<close>

text \<open>
  The axes object is the list of the drawing calls made on it, each with the data it was
  given (colours and line styles are not recorded), and the lengths of the texts of its
  x tick labels, which the labelling pass reads; how matplotlib lays ticks out is not
  modelled.
\<close>

datatype plot_kind = BarKind | AreaKind

record pivot =
  pindex :: "cell list"
  pgroups :: "cell list"
  pcells :: "npfloat list list"

datatype artist =
    Plot "cell list" "cell list" "cell option"
  | Bar "cell list" "cell list"
  | Scatter "cell list" "cell list" "cell option"
  | Pie "(cell \<times> nat) list"
  | FillBetween "cell list" "cell list"
  | PivotPlot plot_kind pivot
  | Legend "string option"
  | BoxPlot "string option" "string option"
  | ViolinPlot "string option" "string option"
  | Heatmap "string list" "npfloat list list"
  | HistPlot string
  | ScatterPlot string string "string option"
  | XLabel string
  | YLabel string
  | Title string
  | Grid
  | TickParams
  | RotateXTicks

record canvas =
  artists :: "artist list"
  xtick_lengths :: "nat list"

definition draw :: "artist \<Rightarrow> canvas \<Rightarrow> canvas" where
  "draw a ax = ax\<lparr>artists := artists ax @ [a]\<rparr>"

subsection \<open>The pandas and seaborn calls of the engine\<close>

text \<open>\<^verbatim>\<open>name in data.columns\<close>, \<^verbatim>\<open>data[key]\<close> and the truth value of an argument.\<close>

definition contains :: "table \<Rightarrow> string \<Rightarrow> bool" where
  "contains data name \<longleftrightarrow> name \<in> set (column_names data)"

definition getitem :: "table \<Rightarrow> string option \<Rightarrow> pyerr + cell list" where
  "getitem data key =
     (case key of
        None \<Rightarrow> Inl (KeyError None)
      | Some k \<Rightarrow>
          (case find (\<lambda>c. cname c = k) (columns data) of
             None \<Rightarrow> Inl (KeyError key)
           | Some c \<Rightarrow> Inr (cells c)))"

fun truthy :: "string option \<Rightarrow> bool" where
  "truthy None = False"
| "truthy (Some s) = (s \<noteq> [])"

text \<open>The test \<^verbatim>\<open>group_col and group_col in data.columns\<close> of the grouped strategies.\<close>

definition group_key :: "table \<Rightarrow> string option \<Rightarrow> string option" where
  "group_key data group_col =
     (case group_col of
        None \<Rightarrow> None
      | Some g \<Rightarrow> if g \<noteq> [] \<and> contains data g then Some g else None)"

text \<open>
  Group keys are sorted: numbers by value, texts by code point (which is the byte order of
  UTF-8), numbers before texts.
\<close>

fun str_le :: "string \<Rightarrow> string \<Rightarrow> bool" where
  "str_le [] t = True"
| "str_le (a # s) [] = False"
| "str_le (a # s) (b # t) =
     ((of_char a :: nat) < of_char b \<or> (a = b \<and> str_le s t))"

fun cell_le :: "cell \<Rightarrow> cell \<Rightarrow> bool" where
  "cell_le (Num a) (Num b) = (a \<le> b)"
| "cell_le (Num a) (Str t) = True"
| "cell_le (Num a) NA = True"
| "cell_le (Str s) (Num b) = False"
| "cell_le (Str s) (Str t) = str_le s t"
| "cell_le (Str s) NA = True"
| "cell_le NA (Num b) = False"
| "cell_le NA (Str t) = False"
| "cell_le NA NA = True"

fun insert_cell :: "cell \<Rightarrow> cell list \<Rightarrow> cell list" where
  "insert_cell x [] = [x]"
| "insert_cell x (y # ys) = (if cell_le x y then x # y # ys else y # insert_cell x ys)"

definition sort_cells :: "cell list \<Rightarrow> cell list" where
  "sort_cells xs = foldr insert_cell xs []"

text \<open>The rows picked by a boolean mask.\<close>

definition rows_where :: "bool list \<Rightarrow> table \<Rightarrow> table" where
  "rows_where keep data =
     \<lparr>nrows = length (filter id keep),
      columns = map (\<lambda>c. c\<lparr>cells := map fst (filter snd (zip (cells c) keep))\<rparr>) (columns data)\<rparr>"

text \<open>
  \<^verbatim>\<open>data.groupby(by)\<close>, iterated: one frame per present value of the column, in sorted
  order; the rows whose key is missing belong to no group.
\<close>

definition groupby :: "table \<Rightarrow> string \<Rightarrow> pyerr + (cell \<times> table) list" where
  "groupby data by =
     (case find (\<lambda>c. cname c = by) (columns data) of
        None \<Rightarrow> Inl (KeyError (Some by))
      | Some gc \<Rightarrow>
          Inr (map (\<lambda>k. (k, rows_where (map (\<lambda>x. x = k) (cells gc)) data))
                 (sort_cells (remdups (filter (\<lambda>x. x \<noteq> NA) (cells gc))))))"

text \<open>\<^verbatim>\<open>Series.value_counts()\<close>: the present values with their counts, most frequent first.\<close>

definition value_counts :: "cell list \<Rightarrow> (cell \<times> nat) list" where
  "value_counts xs =
     (let vs = filter (\<lambda>x. x \<noteq> NA) xs
      in sort_key (\<lambda>(v, n). - int n) (map (\<lambda>v. (v, count_list vs v)) (remdups vs)))"

text \<open>
  \<^verbatim>\<open>data.pivot_table(values=y, index=x, columns=g, aggfunc=f)\<close> with its defaults
  (\<^verbatim>\<open>dropna=True\<close>, no fill value). The value label is checked first, then the keys by
  \<^verbatim>\<open>groupby\<close>. Rows with a missing key are dropped and the rest is grouped by the pair of
  keys; a group is aggregated over its present values (the mean of none is \<^verbatim>\<open>NaN\<close>, the
  sum of none is 0); groups whose aggregate is \<^verbatim>\<open>NaN\<close> are dropped; what remains is
  unstacked, the cell of a pair without a group being \<^verbatim>\<open>NaN\<close>. Modelled for a numeric
  value column and three different labels.
\<close>

datatype aggfunc = Mean | Sum

definition aggregate :: "aggfunc \<Rightarrow> cell list \<Rightarrow> npfloat" where
  "aggregate f ys =
     (let vs = present_values ys
      in case f of
           Mean \<Rightarrow> if vs = [] then NaN else Fin (mean vs)
         | Sum \<Rightarrow> Fin (sum_list vs))"

definition group_values :: "(cell \<times> cell \<times> cell) list \<Rightarrow> cell \<times> cell \<Rightarrow> cell list" where
  "group_values rows key = map (\<lambda>(x, g, y). y) (filter (\<lambda>(x, g, y). (x, g) = key) rows)"

definition unstack :: "aggfunc \<Rightarrow> cell list \<Rightarrow> cell list \<Rightarrow> cell list \<Rightarrow> pivot" where
  "unstack f xs gs ys =
     (let rows = filter (\<lambda>(x, g, y). x \<noteq> NA \<and> g \<noteq> NA) (zip xs (zip gs ys));
          keys = remdups (map (\<lambda>(x, g, y). (x, g)) rows);
          agged = filter (\<lambda>key. aggregate f (group_values rows key) \<noteq> NaN) keys;
          index = sort_cells (remdups (map fst agged));
          groups = sort_cells (remdups (map snd agged))
      in \<lparr>pindex = index, pgroups = groups,
          pcells = map (\<lambda>x. map (\<lambda>g. if (x, g) \<in> set agged
                                       then aggregate f (group_values rows (x, g)) else NaN)
                                groups) index\<rparr>)"

definition pivot_table ::
  "table \<Rightarrow> string option \<Rightarrow> string \<Rightarrow> string \<Rightarrow> aggfunc \<Rightarrow> pyerr + pivot" where
  "pivot_table data values index cols f =
     (case values of
        None \<Rightarrow> Inl NotModelled
      | Some y \<Rightarrow>
          (case find (\<lambda>c. cname c = y) (columns data) of
             None \<Rightarrow> Inl (KeyError (Some y))
           | Some yc \<Rightarrow>
               then_do (getitem data (Some index)) (\<lambda>xs.
               then_do (getitem data (Some cols)) (\<lambda>gs.
                 if index = cols \<or> y = index \<or> y = cols \<or> ctype yc \<noteq> Numeric
                 then Inl NotModelled
                 else Inr (unstack f xs gs (cells yc))))))"

text \<open>\<^verbatim>\<open>pivot_data.plot(kind=..., ax=ax)\<close>: pandas refuses a frame without data.\<close>

definition df_plot :: "plot_kind \<Rightarrow> canvas \<Rightarrow> pivot \<Rightarrow> pyerr + canvas" where
  "df_plot kind ax p =
     (if pindex p = [] then Inl (TypeError [Text ''no numeric data to plot''])
      else Inr (draw (PivotPlot kind p) ax))"

text \<open>Seaborn looks a variable given by name up in the data and raises when it is absent.\<close>

definition sns_variable :: "table \<Rightarrow> string \<Rightarrow> pyerr + unit" where
  "sns_variable data name = (if contains data name then Inr () else Inl (ValueError [Named name]))"

subsection \<open>The rendering strategies\<close>

fun plot_groups ::
  "canvas \<Rightarrow> (cell \<times> table) list \<Rightarrow> string \<Rightarrow> string option \<Rightarrow> pyerr + canvas" where
  "plot_groups ax [] x_col y_col = Inr ax"
| "plot_groups ax ((name, grp) # groups) x_col y_col =
     then_do (getitem grp (Some x_col)) (\<lambda>xs.
     then_do (getitem grp y_col) (\<lambda>ys.
       plot_groups (draw (Plot xs ys (Some name)) ax) groups x_col y_col))"

definition create_line_chart ::
  "canvas \<Rightarrow> table \<Rightarrow> string \<Rightarrow> string option \<Rightarrow> string option \<Rightarrow> string \<Rightarrow> pyerr + canvas" where
  "create_line_chart ax data x_col y_col group_col palette =
     (case group_key data group_col of
        Some g \<Rightarrow>
          then_do (groupby data g) (\<lambda>groups.
          then_do (plot_groups ax groups x_col y_col) (\<lambda>ax.
            Inr (draw (Legend None) ax)))
      | None \<Rightarrow>
          then_do (getitem data (Some x_col)) (\<lambda>xs.
          then_do (getitem data y_col) (\<lambda>ys.
            Inr (draw (Plot xs ys None) ax))))"

definition create_bar_chart ::
  "canvas \<Rightarrow> table \<Rightarrow> string \<Rightarrow> string option \<Rightarrow> string option \<Rightarrow> string \<Rightarrow> pyerr + canvas" where
  "create_bar_chart ax data x_col y_col group_col palette =
     (case group_key data group_col of
        Some g \<Rightarrow>
          then_do (pivot_table data y_col x_col g Mean) (\<lambda>pivot_data.
          then_do (df_plot BarKind ax pivot_data) (\<lambda>ax.
            Inr (draw (Legend (Some g)) ax)))
      | None \<Rightarrow>
          then_do (getitem data (Some x_col)) (\<lambda>xs.
          then_do (getitem data y_col) (\<lambda>ys.
            Inr (draw (Bar xs ys) ax))))"

fun scatter_groups ::
  "canvas \<Rightarrow> (cell \<times> table) list \<Rightarrow> string \<Rightarrow> string option \<Rightarrow> pyerr + canvas" where
  "scatter_groups ax [] x_col y_col = Inr ax"
| "scatter_groups ax ((name, grp) # groups) x_col y_col =
     then_do (getitem grp (Some x_col)) (\<lambda>xs.
     then_do (getitem grp y_col) (\<lambda>ys.
       scatter_groups (draw (Scatter xs ys (Some name)) ax) groups x_col y_col))"

definition create_scatter_chart ::
  "canvas \<Rightarrow> table \<Rightarrow> string \<Rightarrow> string option \<Rightarrow> string option \<Rightarrow> string \<Rightarrow> pyerr + canvas" where
  "create_scatter_chart ax data x_col y_col group_col palette =
     (case group_key data group_col of
        Some g \<Rightarrow>
          then_do (groupby data g) (\<lambda>groups.
          then_do (scatter_groups ax groups x_col y_col) (\<lambda>ax.
            Inr (draw (Legend None) ax)))
      | None \<Rightarrow>
          then_do (getitem data (Some x_col)) (\<lambda>xs.
          then_do (getitem data y_col) (\<lambda>ys.
            Inr (draw (Scatter xs ys None) ax))))"

definition create_pie_chart :: "canvas \<Rightarrow> table \<Rightarrow> string \<Rightarrow> string \<Rightarrow> pyerr + canvas" where
  "create_pie_chart ax data x_col palette =
     then_do (getitem data (Some x_col)) (\<lambda>xs.
       Inr (draw (YLabel []) (draw (Pie (value_counts xs)) ax)))"

definition create_area_chart ::
  "canvas \<Rightarrow> table \<Rightarrow> string \<Rightarrow> string option \<Rightarrow> string option \<Rightarrow> string \<Rightarrow> pyerr + canvas" where
  "create_area_chart ax data x_col y_col group_col palette =
     (case group_key data group_col of
        Some g \<Rightarrow>
          then_do (pivot_table data y_col x_col g Sum) (\<lambda>pivot_data.
          then_do (df_plot AreaKind ax pivot_data) (\<lambda>ax.
            Inr (draw (Legend (Some g)) ax)))
      | None \<Rightarrow>
          then_do (getitem data (Some x_col)) (\<lambda>xs.
          then_do (getitem data y_col) (\<lambda>ys.
            Inr (draw (Plot xs ys None) (draw (FillBetween xs ys) ax)))))"

definition create_box_plot ::
  "canvas \<Rightarrow> table \<Rightarrow> string \<Rightarrow> string option \<Rightarrow> string \<Rightarrow> pyerr + canvas" where
  "create_box_plot ax data x_col y_col palette =
     (case (if x_col \<noteq> [] \<and> truthy y_col then y_col else None) of
        Some y \<Rightarrow>
          then_do (sns_variable data x_col) (\<lambda>_.
          then_do (sns_variable data y) (\<lambda>_.
            Inr (draw (BoxPlot (Some x_col) (Some y)) ax)))
      | None \<Rightarrow>
          (let column = (if x_col \<noteq> [] then Some x_col else y_col)
           in then_do (getitem data column) (\<lambda>_. Inr (draw (BoxPlot column None) ax))))"

definition create_heatmap :: "canvas \<Rightarrow> table \<Rightarrow> string \<Rightarrow> pyerr + canvas" where
  "create_heatmap ax data palette =
     (let numeric_data = select_dtypes_number data
      in if df_empty numeric_data then Inl (ValueError [Text msg_heatmap_no_numeric])
         else
           let correlation_matrix = df_corr numeric_data
           in Inr (draw (Heatmap (column_names numeric_data) correlation_matrix) ax))"

definition create_distribution_plot :: "canvas \<Rightarrow> table \<Rightarrow> string \<Rightarrow> string \<Rightarrow> pyerr + canvas" where
  "create_distribution_plot ax data x_col palette =
     then_do (sns_variable data x_col) (\<lambda>_. Inr (draw (HistPlot x_col) ax))"

definition create_violin_plot ::
  "canvas \<Rightarrow> table \<Rightarrow> string \<Rightarrow> string option \<Rightarrow> string \<Rightarrow> pyerr + canvas" where
  "create_violin_plot ax data x_col y_col palette =
     (case (if x_col \<noteq> [] \<and> truthy y_col then y_col else None) of
        Some y \<Rightarrow>
          then_do (sns_variable data x_col) (\<lambda>_.
          then_do (sns_variable data y) (\<lambda>_.
            Inr (draw (ViolinPlot (Some x_col) (Some y)) ax)))
      | None \<Rightarrow>
          (let column = (if x_col \<noteq> [] then Some x_col else y_col)
           in then_do (getitem data column) (\<lambda>_. Inr (draw (ViolinPlot column None) ax))))"

definition create_pair_plot ::
  "canvas \<Rightarrow> table \<Rightarrow> string option \<Rightarrow> string \<Rightarrow> pyerr + canvas" where
  "create_pair_plot ax data group_col palette =
     (let numeric_data = select_dtypes_number data
      in if df_empty numeric_data then Inl (ValueError [Text msg_pair_no_numeric])
         else
           (case column_names numeric_data of
              col1 # col2 # _ \<Rightarrow>
                (case group_key data group_col of
                   Some g \<Rightarrow> Inr (draw (ScatterPlot col1 col2 (Some g)) ax)
                 | None \<Rightarrow> Inr (draw (ScatterPlot col1 col2 None) ax))
            | _ \<Rightarrow> Inl (ValueError [Text msg_pair_need_two])))"

subsection \<open>Labels and the dispatcher\<close>

definition chart_names :: "(string \<times> string) list" where
  "chart_names =
     [(''line'', name_line), (''bar'', name_bar), (''scatter'', name_scatter),
      (''pie'', name_pie), (''area'', name_area), (''box'', name_box),
      (''heatmap'', name_heatmap), (''distplot'', name_distplot),
      (''violin'', name_violin), (''pairplot'', name_scatter)]"

definition set_chart_labels :: "canvas \<Rightarrow> string \<Rightarrow> string \<Rightarrow> string option \<Rightarrow> canvas" where
  "set_chart_labels ax chart_type x_col y_col =
     (let ax = (if x_col \<noteq> [] then draw (XLabel x_col) ax else ax);
          ax = (case y_col of Some y \<Rightarrow> if y \<noteq> [] then draw (YLabel y) ax else ax | None \<Rightarrow> ax);
          title = (case map_of chart_names chart_type of Some t \<Rightarrow> t | None \<Rightarrow> name_default);
          ax = draw (Title title) ax;
          ax = draw Grid ax;
          ax = draw TickParams ax;
          labels = xtick_lengths ax
      in if x_col \<noteq> [] \<and> labels \<noteq> [] \<and> 10 < fold max labels 0
         then draw RotateXTicks ax else ax)"

definition supported :: "string list" where
  "supported = [''line'', ''bar'', ''scatter'', ''pie'', ''area'', ''box'', ''heatmap'',
                ''distplot'', ''violin'', ''pairplot'']"

text \<open>The chain of comparisons of \<open>create_chart\<close>.\<close>

definition render ::
  "canvas \<Rightarrow> table \<Rightarrow> string \<Rightarrow> string \<Rightarrow> string option \<Rightarrow> string option \<Rightarrow> string \<Rightarrow> pyerr + canvas" where
  "render ax data chart_type x_col y_col group_col palette =
     (if chart_type = ''line'' then create_line_chart ax data x_col y_col group_col palette
      else if chart_type = ''bar'' then create_bar_chart ax data x_col y_col group_col palette
      else if chart_type = ''scatter'' then create_scatter_chart ax data x_col y_col group_col palette
      else if chart_type = ''pie'' then create_pie_chart ax data x_col palette
      else if chart_type = ''area'' then create_area_chart ax data x_col y_col group_col palette
      else if chart_type = ''box'' then create_box_plot ax data x_col y_col palette
      else if chart_type = ''heatmap'' then create_heatmap ax data palette
      else if chart_type = ''distplot'' then create_distribution_plot ax data x_col palette
      else if chart_type = ''violin'' then create_violin_plot ax data x_col y_col palette
      else if chart_type = ''pairplot'' then create_pair_plot ax data group_col palette
      else Inl (ValueError [Text msg_unsupported, Text chart_type]))"

text \<open>
  \<open>create_chart\<close>: the \<^verbatim>\<open>try\<close> block is \<open>render\<close> followed by the labelling pass; every
  exception leaves it as \<^verbatim>\<open>Exception("...: " + str(e))\<close>.
\<close>

definition create_chart ::
  "canvas \<Rightarrow> table \<Rightarrow> string \<Rightarrow> string \<Rightarrow> string option \<Rightarrow> string option \<Rightarrow> string \<Rightarrow> pyerr + canvas" where
  "create_chart ax data chart_type x_col y_col group_col palette =
     (case then_do (render ax data chart_type x_col y_col group_col palette)
             (\<lambda>ax. Inr (set_chart_labels ax chart_type x_col y_col)) of
        Inl NotModelled \<Rightarrow> Inl NotModelled
      | Inl e \<Rightarrow> Inl (Exception (Text msg_create_failed # py_str e))
      | Inr ax \<Rightarrow> Inr ax)"


section \<open>Example tables\<close>

definition tbl_one_numeric_no_rows :: table where
  "tbl_one_numeric_no_rows =
     \<lparr>nrows = 0, columns = [\<lparr>cname = ''a'', ctype = Numeric, cells = []\<rparr>]\<rparr>"

definition tbl_one_numeric :: table where
  "tbl_one_numeric =
     \<lparr>nrows = 2, columns = [\<lparr>cname = ''a'', ctype = Numeric, cells = [Num 1, Num 2]\<rparr>,
                            \<lparr>cname = ''s'', ctype = Object, cells = [Str ''u'', NA]\<rparr>]\<rparr>"

definition tbl_text_only :: table where
  "tbl_text_only =
     \<lparr>nrows = 2, columns = [\<lparr>cname = ''s'', ctype = Object, cells = [Str ''u'', Str ''v'']\<rparr>]\<rparr>"


definition tbl_xy :: table where
  "tbl_xy =
     \<lparr>nrows = 3, columns = [\<lparr>cname = ''x'', ctype = Numeric, cells = [Num 1, Num 2, Num 3]\<rparr>,
                            \<lparr>cname = ''y'', ctype = Numeric, cells = [Num 10, Num 20, Num 30]\<rparr>,
                            \<lparr>cname = ''z'', ctype = Numeric, cells = [Num 1, Num 0, Num 1]\<rparr>]\<rparr>"




definition blank :: canvas where
  "blank = \<lparr>artists = [], xtick_lengths = []\<rparr>"

section \<open>Properties of analyze_correlations\<close>

lemma msg_corr_differ: "msg_corr_no_numeric \<noteq> msg_corr_need_two"
  by (simp add: msg_corr_no_numeric_def msg_corr_need_two_def)

text \<open>
  C2 (as the code has it). A table without numeric columns gets the "no numeric data"
  message. A table with exactly one numeric column gets the "need at least two" message
  when it has at least one row; with no rows the numeric part is empty and the
  "no numeric data" message is returned. Either way the result is that one message.
\<close>

theorem analyze_correlations_insufficient:
  "(columns (select_dtypes_number data) = [] \<longrightarrow>
      analyze_correlations data = [Lit msg_corr_no_numeric]) \<and>
   (length (columns (select_dtypes_number data)) = 1 \<and> 0 < nrows data \<longrightarrow>
      analyze_correlations data = [Lit msg_corr_need_two]) \<and>
   (length (columns (select_dtypes_number data)) = 1 \<and> nrows data = 0 \<longrightarrow>
      analyze_correlations data = [Lit msg_corr_no_numeric])"
  by (auto simp: analyze_correlations_def df_empty_def select_dtypes_number_def Let_def)

theorem analyze_correlations_insufficient_witness:
  "analyze_correlations tbl_text_only = [Lit msg_corr_no_numeric] \<and>
   analyze_correlations tbl_one_numeric = [Lit msg_corr_need_two] \<and>
   analyze_correlations tbl_one_numeric_no_rows = [Lit msg_corr_no_numeric]"
  using analyze_correlations_insufficient [of tbl_text_only]
        analyze_correlations_insufficient [of tbl_one_numeric]
        analyze_correlations_insufficient [of tbl_one_numeric_no_rows]
  by (simp add: tbl_text_only_def tbl_one_numeric_def tbl_one_numeric_no_rows_def
        select_dtypes_number_def)

text \<open>
  C2 as stated fails: this table has exactly one numeric column, and the message is not
  the "need at least two" one.
\<close>

theorem analyze_correlations_one_numeric_no_rows:
  "length (columns (select_dtypes_number tbl_one_numeric_no_rows)) = 1 \<and>
   analyze_correlations tbl_one_numeric_no_rows \<noteq> [Lit msg_corr_need_two]"
  by (simp add: tbl_one_numeric_no_rows_def select_dtypes_number_def analyze_correlations_def
        df_empty_def msg_corr_no_numeric_def msg_corr_need_two_def)

subsection \<open>The correlation matrix\<close>

















subsection \<open>The strong pairs\<close>













section \<open>Properties of analyze_missing_values\<close>

lemma round_half_even_close: "\<bar>of_int (round_half_even y) - y\<bar> \<le> 1/2"
proof -
  have "of_int \<lfloor>y\<rfloor> \<le> y" "y < of_int \<lfloor>y\<rfloor> + 1" by linarith+
  then show ?thesis
    unfolding round_half_even_def Let_def by (auto split: if_splits)
qed

lemma np_round_close: "\<bar>np_round d x - x\<bar> \<le> 1 / (2 * 10 ^ d)"
proof -
  have p: "(0::real) < 10 ^ d" by simp
  have "\<bar>np_round d x - x\<bar> = \<bar>of_int (round_half_even (x * 10 ^ d)) - x * 10 ^ d\<bar> / 10 ^ d"
    using p by (simp add: np_round_def field_simps abs_divide flip: abs_mult)
  also have "\<dots> \<le> (1/2) / 10 ^ d"
    using round_half_even_close [of "x * 10 ^ d"] p by (intro divide_right_mono) simp_all
  finally show ?thesis by simp
qed

lemma np_round_grid: "np_round d x * 10 ^ d = of_int (round_half_even (x * 10 ^ d))"
  by (simp add: np_round_def)














section \<open>Properties of detect_outliers\<close>











section \<open>The chart dispatcher\<close>

subsection \<open>Unknown chart kinds\<close>

lemma render_unsupported:
  assumes "chart_type \<notin> set supported"
  shows "render ax data chart_type x_col y_col group_col palette
         = Inl (ValueError [Text msg_unsupported, Text chart_type])"
  using assms by (simp add: render_def supported_def)

text \<open>
  C6. For a chart kind outside the ten supported ones, \<open>create_chart\<close> raises: the result
  is the exception whose message is the failure prefix, the "unsupported chart type"
  text and the given kind. Nothing is drawn, as no canvas is returned.
\<close>

theorem create_chart_unsupported:
  assumes "chart_type \<notin> set supported"
  shows "create_chart ax data chart_type x_col y_col group_col palette
         = Inl (Exception [Text msg_create_failed, Text msg_unsupported, Text chart_type])"
  by (simp add: create_chart_def render_unsupported [OF assms] then_do_def)

theorem create_chart_unsupported_witness:
  "''histogram'' \<notin> set supported \<and>
   create_chart blank tbl_xy ''histogram'' ''x'' (Some ''y'') None ''viridis''
     = Inl (Exception [Text msg_create_failed, Text msg_unsupported, Text ''histogram''])"
  using create_chart_unsupported [of "''histogram''" blank tbl_xy "''x''" "Some ''y''" None "''viridis''"]
  by (simp add: supported_def)

subsection \<open>Strategies without enough numeric columns\<close>

lemma create_heatmap_no_numeric:
  assumes "columns (select_dtypes_number data) = []"
  shows "create_heatmap ax data palette = Inl (ValueError [Text msg_heatmap_no_numeric])"
  using assms by (simp add: create_heatmap_def df_empty_def Let_def)

lemma create_pair_plot_too_few:
  assumes "length (columns (select_dtypes_number data)) < 2"
  shows "create_pair_plot ax data group_col palette
         = Inl (ValueError [Text (if df_empty (select_dtypes_number data)
                                  then msg_pair_no_numeric else msg_pair_need_two)])"
proof (cases "columns (select_dtypes_number data)")
  case Nil
  then show ?thesis by (simp add: create_pair_plot_def df_empty_def Let_def)
next
  case (Cons c cs)
  with assms have "cs = []" by simp
  with Cons show ?thesis by (simp add: create_pair_plot_def column_names_def Let_def)
qed

text \<open>
  C8. A heatmap of a table without numeric columns raises the failure with the
  "no numeric data for the heatmap" message. A pair plot of a table with fewer than two
  numeric columns raises the failure with the "no numeric data for the pair plot" message
  when the numeric part is empty, and with the "at least two numeric variables" message
  otherwise. In both cases no canvas is returned.
\<close>

theorem strategy_precondition_unmet:
  "(columns (select_dtypes_number data) = [] \<longrightarrow>
      create_chart ax data ''heatmap'' x_col y_col group_col palette
        = Inl (Exception [Text msg_create_failed, Text msg_heatmap_no_numeric])) \<and>
   (length (columns (select_dtypes_number data)) < 2 \<longrightarrow>
      create_chart ax data ''pairplot'' x_col y_col group_col palette
        = Inl (Exception [Text msg_create_failed,
                          Text (if df_empty (select_dtypes_number data)
                                then msg_pair_no_numeric else msg_pair_need_two)]))"
  by (simp add: create_chart_def render_def then_do_def create_heatmap_no_numeric
        create_pair_plot_too_few)

theorem strategy_precondition_unmet_witness:
  "columns (select_dtypes_number tbl_text_only) = [] \<and>
   create_chart blank tbl_text_only ''heatmap'' ''s'' None None ''viridis''
     = Inl (Exception [Text msg_create_failed, Text msg_heatmap_no_numeric]) \<and>
   create_chart blank tbl_text_only ''pairplot'' ''s'' None None ''viridis''
     = Inl (Exception [Text msg_create_failed, Text msg_pair_no_numeric]) \<and>
   length (columns (select_dtypes_number tbl_one_numeric)) = 1 \<and>
   create_chart blank tbl_one_numeric ''pairplot'' ''a'' None None ''viridis''
     = Inl (Exception [Text msg_create_failed, Text msg_pair_need_two])"
  using strategy_precondition_unmet [of tbl_text_only blank "''s''" None None "''viridis''"]
        strategy_precondition_unmet [of tbl_one_numeric blank "''a''" None None "''viridis''"]
  by (simp add: tbl_text_only_def tbl_one_numeric_def select_dtypes_number_def df_empty_def)

subsection \<open>Absent columns\<close>













































end
